theory Spec2Isabelle
  imports Main "HOL-Library.AList"
begin

section \<open>Python values, exceptions and dictionaries\<close>

text \<open>
  The module \<^verbatim>\<open>inventory_system.py\<close> keeps one global dictionary
  \<^verbatim>\<open>stock_data: dict[str, int]\<close> and a module-level logger. The arguments of
  \<^verbatim>\<open>add_item\<close>, \<^verbatim>\<open>remove_item\<close> (its \<^verbatim>\<open>qty\<close>) and \<^verbatim>\<open>check_low_items\<close> are tested with
  \<^verbatim>\<open>isinstance\<close> by the code itself, so they are dynamic values here; every other
  parameter has its annotated type. A string is a list of characters, each standing
  for one code point below 256.
\<close>

datatype pyval = PNone | PBool bool | PInt int | PStr string | PObject string
  \<comment> \<open>\<open>PObject r\<close>: any object of another class (float, list, ...), named by its repr.\<close>

text \<open>\<^verbatim>\<open>isinstance(v, int)\<close> holds for \<^verbatim>\<open>int\<close> and for its subclass \<^verbatim>\<open>bool\<close>, whose
  values count as 1 and 0 in arithmetic and comparisons.\<close>

fun as_int :: "pyval \<Rightarrow> int option" where
  "as_int (PInt n) = Some n"
| "as_int (PBool b) = Some (if b then 1 else 0)"
| "as_int _ = None"

fun as_str :: "pyval \<Rightarrow> string option" where
  "as_str (PStr s) = Some s"
| "as_str _ = None"

datatype error =
    KeyError string
  | ValueError string
  | JSONDecodeError
  | FileNotFoundError string
  | PermissionError string

text \<open>\<^verbatim>\<open>str.isspace\<close> on the code points below 256, and \<^verbatim>\<open>str.strip()\<close>.\<close>

definition isspace :: "char \<Rightarrow> bool" where
  "isspace c = (of_char c \<in> {9, 10, 11, 12, 13, 28, 29, 30, 31, 32, 133, 160 :: nat})"

definition strip :: "string \<Rightarrow> string" where
  "strip s = rev (dropWhile isspace (rev (dropWhile isspace s)))"

text \<open>\<^verbatim>\<open>str(n)\<close> for an integer, and the text an f-string puts in for a value.\<close>

function str_nat :: "nat \<Rightarrow> string" where
  "str_nat n = (if n < 10 then [char_of (48 + n)]
                else str_nat (n div 10) @ [char_of (48 + n mod 10)])"
  by pat_completeness auto
termination
  by (relation "measure id") auto

declare str_nat.simps [simp del]

definition str_int :: "int \<Rightarrow> string" where
  "str_int i = (if i < 0 then CHR ''-'' # str_nat (nat (- i)) else str_nat (nat i))"

fun py_str :: "pyval \<Rightarrow> string" where
  "py_str PNone = ''None''"
| "py_str (PBool b) = (if b then ''True'' else ''False'')"
| "py_str (PInt n) = str_int n"
| "py_str (PStr s) = s"
| "py_str (PObject r) = r"

text \<open>
  A \<^verbatim>\<open>dict\<close> iterates in insertion order: it is a list of key/value pairs with distinct
  keys. Assigning to a present key keeps its position, assigning to a new key appends
  (\<^const>\<open>AList.update\<close>); \<^verbatim>\<open>del\<close> drops the pair (\<^const>\<open>AList.delete\<close>).
  \<open>dict_get\<close> is \<^verbatim>\<open>d.get(k)\<close>, \<open>dict_get_or\<close> is \<^verbatim>\<open>d.get(k, default)\<close>, \<open>dict_getitem\<close> is
  \<^verbatim>\<open>d[k]\<close>, \<open>dict_setitem\<close> is \<^verbatim>\<open>d[k] = v\<close> and \<open>dict_delitem\<close> is \<^verbatim>\<open>del d[k]\<close>.
\<close>

type_synonym inventory = "(string \<times> int) list"

definition dict_get :: "inventory \<Rightarrow> string \<Rightarrow> int option" where
  "dict_get d k = map_of d k"

definition dict_get_or :: "inventory \<Rightarrow> string \<Rightarrow> int \<Rightarrow> int" where
  "dict_get_or d k dflt = (case map_of d k of None \<Rightarrow> dflt | Some v \<Rightarrow> v)"

definition dict_getitem :: "inventory \<Rightarrow> string \<Rightarrow> error + int" where
  "dict_getitem d k = (case map_of d k of None \<Rightarrow> Inl (KeyError k) | Some v \<Rightarrow> Inr v)"

definition dict_setitem :: "inventory \<Rightarrow> string \<Rightarrow> int \<Rightarrow> inventory" where
  "dict_setitem d k v = AList.update k v d"

definition dict_delitem :: "inventory \<Rightarrow> string \<Rightarrow> error + inventory" where
  "dict_delitem d k = (case map_of d k of None \<Rightarrow> Inl (KeyError k)
                       | Some _ \<Rightarrow> Inr (AList.delete k d))"

section \<open>The state of the module and of its environment\<close>

text \<open>
  What the logger receives is kept as records of level, message format and arguments.
  \<^verbatim>\<open>logging.basicConfig(level=logging.INFO)\<close> lets every level used here through.
\<close>

datatype level = INFO | WARNING | ERROR

datatype log_arg = Val pyval | Exc error

type_synonym log_record = "level \<times> string \<times> log_arg list"

text \<open>
  A file holds either the JSON object of an inventory, as the pairs written in it (a
  JSON text may repeat a key), or text that is not JSON. JSON files of another shape
  would bind \<^verbatim>\<open>stock_data\<close> to a value outside \<^verbatim>\<open>dict[str, int]\<close> and are not part of
  this model. \<open>unwritable\<close> are the paths that \<^verbatim>\<open>open(path, "w")\<close> refuses.
\<close>

datatype file_content = Json_object "(string \<times> int) list" | Not_json

record world =
  stock_data :: inventory
  log_records :: "log_record list"
  files :: "string \<rightharpoonup> file_content"
  unwritable :: "string set"

definition logger_emit :: "level \<Rightarrow> string \<Rightarrow> log_arg list \<Rightarrow> world \<Rightarrow> world" where
  "logger_emit lvl msg args w = w\<lparr>log_records := log_records w @ [(lvl, msg, args)]\<rparr>"

text \<open>The module as it is once imported: \<^verbatim>\<open>stock_data = {}\<close>, nothing logged.\<close>

definition module_init :: "(string \<rightharpoonup> file_content) \<Rightarrow> string set \<Rightarrow> world" where
  "module_init fs ro = \<lparr>stock_data = [], log_records = [], files = fs, unwritable = ro\<rparr>"

section \<open>The operations\<close>

text \<open>
  Every operation maps the world to its outcome (\<open>Inl\<close> the exception that reaches the
  caller, \<open>Inr\<close> the returned value) and the world it leaves behind.
\<close>

text \<open>
  \<^verbatim>\<open>add_item(item, qty=0, logs=None)\<close>. \<open>now\<close> is the text of
  \<^verbatim>\<open>datetime.now().isoformat()\<close> at the call; the value returned is the content of the
  list \<^verbatim>\<open>logs\<close> on exit (the caller's list, or the fresh one).
\<close>

definition add_item ::
  "pyval \<Rightarrow> pyval \<Rightarrow> string list option \<Rightarrow> string \<Rightarrow> world \<Rightarrow> (error + string list) \<times> world" where
  "add_item item qty logs now w =
     (let logs = (case logs of None \<Rightarrow> [] | Some l \<Rightarrow> l) in
      case as_str item of
        None \<Rightarrow> (Inr logs, logger_emit WARNING ''Invalid item name provided'' [] w)
      | Some name \<Rightarrow>
          if strip name = [] then
            (Inr logs, logger_emit WARNING ''Invalid item name provided'' [] w)
          else
            (case as_int qty of
               None \<Rightarrow> (Inr logs, logger_emit WARNING ''Quantity must be int, got %r'' [Val qty] w)
             | Some q \<Rightarrow>
                 (Inr (logs @ [now @ '': Added '' @ py_str qty @ '' of '' @ name]),
                  w\<lparr>stock_data := dict_setitem (stock_data w) name
                                    (dict_get_or (stock_data w) name 0 + q)\<rparr>)))"

text \<open>The body of the \<^verbatim>\<open>try\<close> statement of \<^verbatim>\<open>remove_item\<close>.\<close>

definition remove_item_try :: "string \<Rightarrow> pyval \<Rightarrow> world \<Rightarrow> (error + unit) \<times> world" where
  "remove_item_try item qty w =
     (case as_int qty of
        None \<Rightarrow> (Inl (ValueError ''qty must be a non-negative int''), w)
      | Some q \<Rightarrow>
          if q < 0 then (Inl (ValueError ''qty must be a non-negative int''), w)
          else
            (case dict_get (stock_data w) item of
               None \<Rightarrow>
                 (Inr (), logger_emit INFO ''Item %s not present; nothing to remove''
                            [Val (PStr item)] w)
             | Some current \<Rightarrow>
                 (let new_qty = current - q in
                  if new_qty \<le> 0 then
                    (case dict_delitem (stock_data w) item of
                       Inl e \<Rightarrow> (Inl e, w)
                     | Inr d \<Rightarrow> (Inr (), w\<lparr>stock_data := d\<rparr>))
                  else (Inr (), w\<lparr>stock_data := dict_setitem (stock_data w) item new_qty\<rparr>))))"

text \<open>\<^verbatim>\<open>except (KeyError, ValueError)\<close>; \<^verbatim>\<open>JSONDecodeError\<close> is a subclass of
  \<^verbatim>\<open>ValueError\<close>.\<close>

fun caught_by_remove :: "error \<Rightarrow> bool" where
  "caught_by_remove (KeyError _) = True"
| "caught_by_remove (ValueError _) = True"
| "caught_by_remove JSONDecodeError = True"
| "caught_by_remove _ = False"

definition remove_item :: "string \<Rightarrow> pyval \<Rightarrow> world \<Rightarrow> (error + unit) \<times> world" where
  "remove_item item qty w =
     (case remove_item_try item qty w of
        (Inl exc, w') \<Rightarrow>
          if caught_by_remove exc then
            (Inr (), logger_emit ERROR ''Failed to remove item: %s'' [Exc exc] w')
          else (Inl exc, w')
      | (Inr u, w') \<Rightarrow> (Inr u, w'))"

definition get_qty :: "string \<Rightarrow> world \<Rightarrow> (error + int) \<times> world" where
  "get_qty item w = (dict_getitem (stock_data w) item, w)"

text \<open>\<^verbatim>\<open>json.load\<close> builds the dictionary by assigning the pairs of the object in the
  order of the text, and \<^verbatim>\<open>json.dump\<close> writes the items of the dictionary in order.\<close>

definition json_load :: "file_content \<Rightarrow> error + inventory" where
  "json_load f = (case f of
     Not_json \<Rightarrow> Inl JSONDecodeError
   | Json_object pairs \<Rightarrow> Inr (foldl (\<lambda>d (k, v). dict_setitem d k v) [] pairs))"

definition json_dump :: "inventory \<Rightarrow> file_content" where
  "json_dump d = Json_object d"

definition load_data :: "string \<Rightarrow> world \<Rightarrow> (error + unit) \<times> world" where
  "load_data path w =
     (case files w path of
        None \<Rightarrow> (Inl (FileNotFoundError path), w)
      | Some f \<Rightarrow>
          (case json_load f of
             Inl e \<Rightarrow> (Inl e, w)
           | Inr d \<Rightarrow> (Inr (), w\<lparr>stock_data := d\<rparr>)))"

definition save_data :: "string \<Rightarrow> world \<Rightarrow> (error + unit) \<times> world" where
  "save_data path w =
     (if path \<in> unwritable w then (Inl (PermissionError path), w)
      else (Inr (), w\<lparr>files := (files w)(path \<mapsto> json_dump (stock_data w))\<rparr>))"

text \<open>The loop of \<^verbatim>\<open>check_low_items\<close> over \<^verbatim>\<open>stock_data.items()\<close>, with the list
  \<^verbatim>\<open>result\<close> as accumulator.\<close>

fun low_items_loop :: "(string \<times> int) list \<Rightarrow> int \<Rightarrow> string list \<Rightarrow> string list" where
  "low_items_loop [] threshold result = result"
| "low_items_loop ((name, qty) # rest) threshold result =
     low_items_loop rest threshold (if qty < threshold then result @ [name] else result)"

definition check_low_items :: "pyval \<Rightarrow> world \<Rightarrow> (error + string list) \<times> world" where
  "check_low_items threshold w =
     (case as_int threshold of
        None \<Rightarrow> (Inl (ValueError ''threshold must be a non-negative int''), w)
      | Some t \<Rightarrow>
          if t < 0 then (Inl (ValueError ''threshold must be a non-negative int''), w)
          else (Inr (low_items_loop (stock_data w) t []), w))"

text \<open>
  \<^verbatim>\<open>print_data\<close> only prints the items of the mapping and \<^verbatim>\<open>main\<close> only calls the functions
  above and prints what they return; neither is part of the model.
\<close>

section \<open>Callers\<close>

text \<open>
  A caller is a sequence of calls of the module's functions. A caller that handles the
  exception of a call goes on in the world that call left behind.
\<close>

datatype call =
    Add_item pyval pyval "string list option" string
  | Remove_item string pyval
  | Get_qty string
  | Load_data string
  | Save_data string
  | Check_low_items pyval

fun call_effect :: "call \<Rightarrow> world \<Rightarrow> world" where
  "call_effect (Add_item item qty logs now) w = snd (add_item item qty logs now w)"
| "call_effect (Remove_item item qty) w = snd (remove_item item qty w)"
| "call_effect (Get_qty item) w = snd (get_qty item w)"
| "call_effect (Load_data path) w = snd (load_data path w)"
| "call_effect (Save_data path) w = snd (save_data path w)"
| "call_effect (Check_low_items threshold) w = snd (check_low_items threshold w)"

definition run_calls :: "call list \<Rightarrow> world \<Rightarrow> world" where
  "run_calls calls w = foldl (\<lambda>w c. call_effect c w) w calls"


section \<open>Notions of the specification\<close>




text \<open>The names of the items whose quantity is strictly below \<open>t\<close>, in the order of the
  mapping.\<close>

definition low_stock_names :: "inventory \<Rightarrow> int \<Rightarrow> string list" where
  "low_stock_names d t = map fst (filter (\<lambda>(name, qty). qty < t) d)"

text \<open>
  The invariant as the specification words it: every key is a non-empty string equal to
  its stripped form. Next to it, what \<^verbatim>\<open>add_item\<close> checks of a name before storing it
  (it is not blank), for a mapping and for the inventory files of a file system.
\<close>

definition keys_trimmed :: "inventory \<Rightarrow> bool" where
  "keys_trimmed d = (\<forall>k \<in> fst ` set d. k \<noteq> [] \<and> strip k = k)"

definition keys_nonblank :: "inventory \<Rightarrow> bool" where
  "keys_nonblank d = (\<forall>k \<in> fst ` set d. strip k \<noteq> [])"

definition files_nonblank :: "(string \<rightharpoonup> file_content) \<Rightarrow> bool" where
  "files_nonblank fs = (\<forall>path pairs. fs path = Some (Json_object pairs) \<longrightarrow> keys_nonblank pairs)"

text \<open>Worlds and a time stamp for concrete runs.\<close>

definition world_of :: "inventory \<Rightarrow> world" where
  "world_of d = \<lparr>stock_data = d, log_records = [], files = Map.empty, unwritable = {}\<rparr>"

definition t0 :: string where
  "t0 = ''2025-01-01T09:00:00''"

section \<open>What each operation does to the world\<close>

lemma run_calls_simps [simp]:
  "run_calls [] w = w"
  "run_calls (c # calls) w = run_calls calls (call_effect c w)"
  by (simp_all add: run_calls_def)

lemma add_item_stock:
  "stock_data (snd (add_item i q l n w)) =
     (case as_str i of
        None \<Rightarrow> stock_data w
      | Some name \<Rightarrow>
          if strip name = [] then stock_data w
          else (case as_int q of
                  None \<Rightarrow> stock_data w
                | Some k \<Rightarrow> AList.update name (dict_get_or (stock_data w) name 0 + k) (stock_data w)))"
  by (simp add: add_item_def logger_emit_def dict_setitem_def Let_def split: option.splits)

lemma add_item_files: "files (snd (add_item i q l n w)) = files w"
  by (simp add: add_item_def logger_emit_def Let_def split: option.splits)

lemma remove_item_stock:
  "stock_data (snd (remove_item item qty w)) =
     (case as_int qty of
        None \<Rightarrow> stock_data w
      | Some q \<Rightarrow>
          if q < 0 then stock_data w
          else (case map_of (stock_data w) item of
                  None \<Rightarrow> stock_data w
                | Some current \<Rightarrow>
                    if current - q \<le> 0 then AList.delete item (stock_data w)
                    else AList.update item (current - q) (stock_data w)))"
  by (simp add: remove_item_def remove_item_try_def logger_emit_def dict_get_def
        dict_delitem_def dict_setitem_def Let_def split: option.splits)

lemma remove_item_files: "files (snd (remove_item item qty w)) = files w"
  by (simp add: remove_item_def remove_item_try_def logger_emit_def dict_get_def
        dict_delitem_def Let_def split: option.splits)

lemma remove_item_returns: "fst (remove_item item qty w) = Inr ()"
  by (simp add: remove_item_def remove_item_try_def logger_emit_def dict_get_def
        dict_delitem_def Let_def split: option.splits)

lemma save_data_stock: "stock_data (snd (save_data path w)) = stock_data w"
  by (simp add: save_data_def)

lemma check_low_items_world: "snd (check_low_items t w) = w"
  by (simp add: check_low_items_def split: option.splits)

lemma get_qty_world: "snd (get_qty item w) = w"
  by (simp add: get_qty_def)

lemma remove_item_present:
  assumes "map_of (stock_data w) item = Some current" and "as_int qty = Some q" and "0 \<le> q"
  shows "remove_item item qty w =
           (Inr (), w\<lparr>stock_data :=
              (if current - q \<le> 0 then AList.delete item (stock_data w)
               else AList.update item (current - q) (stock_data w))\<rparr>)"
  using assms
  by (simp add: remove_item_def remove_item_try_def dict_get_def dict_delitem_def
        dict_setitem_def Let_def)

lemma low_items_loop_acc:
  "low_items_loop d t acc = acc @ map fst (filter (\<lambda>(name, qty). qty < t) d)"
  by (induction d t acc rule: low_items_loop.induct) simp_all

subsection \<open>Runs without \<^verbatim>\<open>remove_item\<close> and \<^verbatim>\<open>load_data\<close>\<close>






subsection \<open>Files, and the keys of the dictionary\<close>

lemma foldl_setitem_keys:
  "fst ` set (foldl (\<lambda>d (k, v). dict_setitem d k v) acc pairs) = fst ` set acc \<union> fst ` set pairs"
proof (induction pairs arbitrary: acc)
  case (Cons p pairs)
  obtain k v where p: "p = (k, v)" by (cases p)
  show ?case
    using Cons.IH [of "dict_setitem acc k v"]
    by (auto simp: p dict_setitem_def dom_update)
qed simp

lemma foldl_setitem_distinct_keys:
  "distinct (map fst acc) \<Longrightarrow>
     distinct (map fst (foldl (\<lambda>d (k, v). dict_setitem d k v) acc pairs))"
proof (induction pairs arbitrary: acc)
  case (Cons p pairs)
  obtain k v where p: "p = (k, v)" by (cases p)
  show ?case
    using Cons.IH [of "dict_setitem acc k v"] Cons.prems
    by (simp add: p dict_setitem_def distinct_update)
qed simp

lemma load_data_stock:
  "stock_data (snd (load_data path w)) =
     (case files w path of
        Some (Json_object pairs) \<Rightarrow> foldl (\<lambda>d (k, v). dict_setitem d k v) [] pairs
      | _ \<Rightarrow> stock_data w)"
  by (simp add: load_data_def json_load_def split: option.splits file_content.splits)

lemma load_data_files: "files (snd (load_data path w)) = files w"
  by (simp add: load_data_def json_load_def split: option.splits file_content.splits)

lemma save_data_files:
  "files (snd (save_data path w)) =
     (if path \<in> unwritable w then files w
      else (files w)(path \<mapsto> Json_object (stock_data w)))"
  by (simp add: save_data_def json_dump_def)

lemma call_effect_distinct:
  assumes "distinct (map fst (stock_data w))"
  shows "distinct (map fst (stock_data (call_effect c w)))"
proof (cases c)
  case (Add_item i q l n)
  then show ?thesis
    using assms by (simp add: add_item_stock distinct_update split: option.splits)
next
  case (Remove_item item qty)
  then show ?thesis
    using assms
    by (simp add: remove_item_stock distinct_update distinct_delete split: option.splits)
next
  case (Load_data path)
  have "distinct (map fst (foldl (\<lambda>d (k, v). dict_setitem d k v) [] pairs))" for pairs
    by (rule foldl_setitem_distinct_keys) simp
  then show ?thesis
    using assms Load_data
    by (simp add: load_data_stock split: option.splits file_content.splits)
qed (use assms in \<open>simp_all add: get_qty_world check_low_items_world save_data_stock\<close>)

lemma run_calls_distinct:
  "distinct (map fst (stock_data w)) \<Longrightarrow> distinct (map fst (stock_data (run_calls calls w)))"
  by (induction calls arbitrary: w) (simp_all add: call_effect_distinct)

lemma module_init_distinct: "distinct (map fst (stock_data (module_init fs ro)))"
  by (simp add: module_init_def)

lemma map_of_Some_key: "map_of d k = Some v \<Longrightarrow> k \<in> fst ` set d"
  by (force dest: map_of_SomeD)

lemma keys_nonblank_subset:
  assumes "fst ` set d' \<subseteq> fst ` set d \<union> {k. strip k \<noteq> []}" and "keys_nonblank d"
  shows "keys_nonblank d'"
  using assms unfolding keys_nonblank_def by blast




section \<open>Properties\<close>



text \<open>
  Claim C2. When \<open>item\<close> is a key of the mapping and \<open>qty\<close> is an integer not below 0,
  \<^verbatim>\<open>remove_item(item, qty)\<close> returns normally and takes \<open>qty\<close> from the stored quantity:
  the entry is deleted when the difference is 0 or less and holds the difference
  otherwise, and no other entry changes. So \<^verbatim>\<open>get_qty("apple")\<close> raises \<^verbatim>\<open>KeyError\<close> after
  \<^verbatim>\<open>add_item("apple", 10)\<close> and \<^verbatim>\<open>remove_item("apple", 10)\<close>.
\<close>

theorem remove_item_subtracts:
  assumes "map_of (stock_data w) item = Some current" and "as_int qty = Some q" and "0 \<le> q"
  shows
    "remove_item item qty w =
       (Inr (), w\<lparr>stock_data :=
          (if current - q \<le> 0 then AList.delete item (stock_data w)
           else AList.update item (current - q) (stock_data w))\<rparr>) \<and>
     fst (get_qty item (snd (remove_item item qty w))) =
       (if current - q \<le> 0 then Inl (KeyError item) else Inr (current - q)) \<and>
     (\<forall>k. k \<noteq> item \<longrightarrow>
        map_of (stock_data (snd (remove_item item qty w))) k = map_of (stock_data w) k)"
  unfolding remove_item_present [OF assms]
  by (simp add: get_qty_def dict_getitem_def delete_conv' update_conv')

theorem remove_item_subtracts_witness:
  "map_of (stock_data (call_effect (Add_item (PStr ''apple'') (PInt 10) None t0)
                         (module_init Map.empty {}))) ''apple'' = Some 10 \<and>
   as_int (PInt 10) = Some 10 \<and> (0::int) \<le> 10 \<and>
   fst (get_qty ''apple''
         (run_calls [Add_item (PStr ''apple'') (PInt 10) None t0,
                     Remove_item ''apple'' (PInt 10)]
            (module_init Map.empty {}))) = Inl (KeyError ''apple'') \<and>
   fst (get_qty ''apple''
         (run_calls [Add_item (PStr ''apple'') (PInt 10) None t0,
                     Remove_item ''apple'' (PInt 3)]
            (module_init Map.empty {}))) = Inr 7"
proof -
  let ?w = "call_effect (Add_item (PStr ''apple'') (PInt 10) None t0) (module_init Map.empty {})"
  have h: "map_of (stock_data ?w) ''apple'' = Some 10"
    by (simp add: add_item_def module_init_def dict_setitem_def dict_get_or_def strip_def
          isspace_def)
  show ?thesis
    using h remove_item_subtracts [OF h, of "PInt 10" 10, THEN conjunct2, THEN conjunct1]
      remove_item_subtracts [OF h, of "PInt 3" 3, THEN conjunct2, THEN conjunct1]
    by simp
qed



text \<open>
  Claim C4, as the specification states it, fails: \<^verbatim>\<open>add_item\<close> tests that
  \<^verbatim>\<open>item.strip()\<close> is not empty and then stores \<open>item\<close> itself, so a key may begin or end
  with white space; and \<^verbatim>\<open>load_data\<close> takes the keys of the file as they are, the empty
  string included.
\<close>

theorem keys_trimmed_counterexample:
  "keys_trimmed (stock_data (module_init Map.empty {})) \<and>
   \<not> keys_trimmed (stock_data (call_effect (Add_item (PStr '' apple'') (PInt 1) None t0)
                                (module_init Map.empty {}))) \<and>
   keys_trimmed (stock_data (module_init [''inventory.json'' \<mapsto> Json_object [('''', 3)]] {})) \<and>
   \<not> keys_trimmed (stock_data (call_effect (Load_data ''inventory.json'')
                      (module_init [''inventory.json'' \<mapsto> Json_object [('''', 3)]] {})))"
  by (simp add: keys_trimmed_def module_init_def add_item_def load_data_def json_load_def
        dict_setitem_def dict_get_or_def strip_def isspace_def)

text \<open>
  Claim C4, amended. Every call keeps the keys of the mapping non-empty after stripping,
  given that they were so before the call and that the keys of every inventory file
  are so; it keeps the files so as well, since \<^verbatim>\<open>save_data\<close> writes the keys of the
  mapping. After a \<^verbatim>\<open>load_data\<close> that finds an inventory file, the keys of the mapping are
  exactly the keys of that file.
\<close>

theorem keys_nonblank_preserved:
  assumes "keys_nonblank (stock_data w)" and "files_nonblank (files w)"
  shows "keys_nonblank (stock_data (call_effect c w)) \<and>
         files_nonblank (files (call_effect c w)) \<and>
         (\<forall>path pairs. c = Load_data path \<and> files w path = Some (Json_object pairs) \<longrightarrow>
            fst ` set (stock_data (call_effect c w)) = fst ` set pairs)"
proof (cases c)
  case (Add_item i q l n)
  have "fst ` set (stock_data (snd (add_item i q l n w)))
          \<subseteq> fst ` set (stock_data w) \<union> {k. strip k \<noteq> []}"
    by (simp add: add_item_stock dom_update split: option.splits)
  then have "keys_nonblank (stock_data (snd (add_item i q l n w)))"
    using assms(1) by (rule keys_nonblank_subset)
  then show ?thesis
    using assms(2) Add_item by (simp add: add_item_files)
next
  case (Remove_item item qty)
  have "fst ` set (stock_data (snd (remove_item item qty w))) \<subseteq> fst ` set (stock_data w)"
    using dom_delete_subset [of item "stock_data w"]
    by (auto simp: remove_item_stock dom_update split: option.splits dest: map_of_Some_key)
  then have "fst ` set (stock_data (snd (remove_item item qty w)))
               \<subseteq> fst ` set (stock_data w) \<union> {k. strip k \<noteq> []}"
    by blast
  then have "keys_nonblank (stock_data (snd (remove_item item qty w)))"
    using assms(1) by (rule keys_nonblank_subset)
  then show ?thesis
    using assms(2) Remove_item by (simp add: remove_item_files)
next
  case (Get_qty item)
  then show ?thesis using assms by (simp add: get_qty_world)
next
  case (Load_data path)
  have keys: "fst ` set (stock_data (snd (load_data path w))) = fst ` set pairs"
    if "files w path = Some (Json_object pairs)" for pairs
    using that by (simp add: load_data_stock foldl_setitem_keys)
  have "keys_nonblank (stock_data (snd (load_data path w)))"
  proof (cases "files w path")
    case None
    then show ?thesis using assms(1) by (simp add: load_data_stock)
  next
    case (Some f)
    show ?thesis
    proof (cases f)
      case (Json_object pairs)
      have "keys_nonblank pairs"
        using assms(2) Some Json_object unfolding files_nonblank_def by blast
      then show ?thesis
        using keys [of pairs] Some Json_object by (simp add: keys_nonblank_def)
    next
      case Not_json
      then show ?thesis using assms(1) Some by (simp add: load_data_stock)
    qed
  qed
  then show ?thesis
    using assms(2) Load_data keys by (simp add: load_data_files)
next
  case (Save_data path)
  have "files_nonblank (files (snd (save_data path w)))"
    using assms unfolding files_nonblank_def save_data_files by simp
  then show ?thesis
    using assms(1) Save_data by (simp add: save_data_stock)
next
  case (Check_low_items t)
  then show ?thesis using assms by (simp add: check_low_items_world)
qed

theorem keys_nonblank_preserved_witness:
  "keys_nonblank (stock_data (module_init Map.empty {})) \<and>
   files_nonblank (files (module_init Map.empty {})) \<and>
   keys_nonblank (stock_data (call_effect (Add_item (PStr '' apple'') (PInt 1) None t0)
                                (module_init Map.empty {}))) \<and>
   stock_data (call_effect (Add_item (PStr '' apple'') (PInt 1) None t0)
                 (module_init Map.empty {})) = [('' apple'', 1)]"
proof -
  have a: "keys_nonblank (stock_data (module_init Map.empty {}))"
    by (simp add: keys_nonblank_def module_init_def)
  have b: "files_nonblank (files (module_init Map.empty {}))"
    by (simp add: files_nonblank_def module_init_def)
  have c: "stock_data (call_effect (Add_item (PStr '' apple'') (PInt 1) None t0)
                 (module_init Map.empty {})) = [('' apple'', 1)]"
    by (simp add: module_init_def add_item_def dict_setitem_def dict_get_or_def strip_def
          isspace_def)
  show ?thesis
    using a b c
      keys_nonblank_preserved [OF a b, of "Add_item (PStr '' apple'') (PInt 1) None t0",
        THEN conjunct1]
    by simp
qed

text \<open>
  Claim C5. \<^verbatim>\<open>get_qty(item)\<close> raises \<^verbatim>\<open>KeyError\<close> to its caller exactly when \<open>item\<close> is not a
  key of the mapping; when it is a key the stored quantity is returned. No default
  value stands in for a missing item, and the world is left as it was.
\<close>

theorem get_qty_KeyError_iff_absent:
  "((fst (get_qty item w) = Inl (KeyError item)) = (item \<notin> fst ` set (stock_data w))) \<and>
   ((\<exists>e. fst (get_qty item w) = Inl e) = (item \<notin> fst ` set (stock_data w))) \<and>
   get_qty item w =
     (case map_of (stock_data w) item of None \<Rightarrow> Inl (KeyError item) | Some v \<Rightarrow> Inr v, w)"
  by (simp add: get_qty_def dict_getitem_def map_of_eq_None_iff [symmetric]
        split: option.splits)

text \<open>
  Claim C6. For a threshold that is an integer not below 0, \<^verbatim>\<open>check_low_items\<close> returns
  the names of exactly the items whose quantity is strictly below the threshold, in the
  order of the mapping, and leaves the world as it was. On \<^verbatim>\<open>{apple: 10, banana: 2}\<close> with
  threshold 5 that is \<^verbatim>\<open>["banana"]\<close>.
\<close>

theorem check_low_items_lists_low_stock:
  assumes "as_int threshold = Some t" and "0 \<le> t"
  shows "check_low_items threshold w = (Inr (low_stock_names (stock_data w) t), w)"
  using assms by (simp add: check_low_items_def low_items_loop_acc low_stock_names_def)

theorem check_low_items_lists_low_stock_witness:
  "as_int (PInt 5) = Some 5 \<and> (0::int) \<le> 5 \<and>
   check_low_items (PInt 5) (world_of [(''apple'', 10), (''banana'', 2)])
     = (Inr [''banana''], world_of [(''apple'', 10), (''banana'', 2)]) \<and>
   low_stock_names [(''apple'', 10), (''banana'', 2)] 5 = [''banana'']"
  using check_low_items_lists_low_stock [of "PInt 5" 5 "world_of [(''apple'', 10), (''banana'', 2)]"]
  by (simp add: low_stock_names_def world_of_def)

text \<open>
  Claim C7. When \<open>qty\<close> is not an integer, or is below 0, the body of \<^verbatim>\<open>remove_item\<close>
  raises \<^verbatim>\<open>ValueError\<close>; the handler of \<^verbatim>\<open>remove_item\<close> catches it and logs it at level
  \<^verbatim>\<open>ERROR\<close>, so the call returns normally, and neither the mapping nor the files change.
\<close>

theorem remove_item_swallows_invalid_qty:
  assumes "\<not> (\<exists>q. as_int qty = Some q \<and> 0 \<le> q)"
  shows "remove_item_try item qty w = (Inl (ValueError ''qty must be a non-negative int''), w) \<and>
         remove_item item qty w =
           (Inr (), logger_emit ERROR ''Failed to remove item: %s''
                      [Exc (ValueError ''qty must be a non-negative int'')] w) \<and>
         stock_data (snd (remove_item item qty w)) = stock_data w \<and>
         files (snd (remove_item item qty w)) = files w"
  using assms
  by (cases "as_int qty") (auto simp: remove_item_def remove_item_try_def logger_emit_def)

theorem remove_item_swallows_invalid_qty_witness:
  "\<not> (\<exists>q. as_int (PInt (- 1)) = Some q \<and> 0 \<le> q) \<and>
   fst (remove_item ''apple'' (PInt (- 1)) (world_of [(''apple'', 10)])) = Inr () \<and>
   stock_data (snd (remove_item ''apple'' (PInt (- 1)) (world_of [(''apple'', 10)])))
     = [(''apple'', 10)] \<and>
   log_records (snd (remove_item ''apple'' (PInt (- 1)) (world_of [(''apple'', 10)])))
     = [(ERROR, ''Failed to remove item: %s'',
         [Exc (ValueError ''qty must be a non-negative int'')])]"
  using remove_item_swallows_invalid_qty [of "PInt (- 1)" "''apple''" "world_of [(''apple'', 10)]"]
  by (simp add: world_of_def logger_emit_def)

text \<open>
  Claim C8. When \<open>item\<close> is not a key of the mapping and \<open>qty\<close> is an integer not below
  0, \<^verbatim>\<open>remove_item\<close> returns normally, having logged at level \<^verbatim>\<open>INFO\<close> that there is
  nothing to remove; neither the mapping nor the files change.
\<close>

theorem remove_item_absent_noop:
  assumes "item \<notin> fst ` set (stock_data w)" and "as_int qty = Some q" and "0 \<le> q"
  shows "remove_item item qty w =
           (Inr (), logger_emit INFO ''Item %s not present; nothing to remove''
                      [Val (PStr item)] w) \<and>
         stock_data (snd (remove_item item qty w)) = stock_data w \<and>
         files (snd (remove_item item qty w)) = files w"
proof -
  have "map_of (stock_data w) item = None"
    using assms(1) by (simp add: map_of_eq_None_iff)
  then show ?thesis
    using assms(2,3)
    by (simp add: remove_item_def remove_item_try_def logger_emit_def dict_get_def)
qed

theorem remove_item_absent_noop_witness:
  "''orange'' \<notin> fst ` set (stock_data (world_of [(''apple'', 7)])) \<and>
   as_int (PInt 1) = Some 1 \<and> (0::int) \<le> 1 \<and>
   fst (remove_item ''orange'' (PInt 1) (world_of [(''apple'', 7)])) = Inr () \<and>
   stock_data (snd (remove_item ''orange'' (PInt 1) (world_of [(''apple'', 7)])))
     = [(''apple'', 7)]"
  using remove_item_absent_noop [of "''orange''" "world_of [(''apple'', 7)]" "PInt 1" 1]
  by (simp add: world_of_def logger_emit_def)

text \<open>
  Claim C9. When \<open>threshold\<close> is not an integer, or is below 0, \<^verbatim>\<open>check_low_items\<close>
  raises \<^verbatim>\<open>ValueError\<close> to its caller; no handler of the module catches it, and the
  world is left as it was.
\<close>

theorem check_low_items_rejects_threshold:
  assumes "\<not> (\<exists>t. as_int threshold = Some t \<and> 0 \<le> t)"
  shows "check_low_items threshold w =
           (Inl (ValueError ''threshold must be a non-negative int''), w)"
  using assms by (cases "as_int threshold") (auto simp: check_low_items_def)

theorem check_low_items_rejects_threshold_witness:
  "\<not> (\<exists>t. as_int (PInt (- 1)) = Some t \<and> 0 \<le> t) \<and>
   check_low_items (PInt (- 1)) (world_of [(''apple'', 10), (''banana'', 2)]) =
     (Inl (ValueError ''threshold must be a non-negative int''),
      world_of [(''apple'', 10), (''banana'', 2)])"
  using check_low_items_rejects_threshold [of "PInt (- 1)" "world_of [(''apple'', 10), (''banana'', 2)]"]
  by simp

text \<open>
  Claim C10. When the stored quantity of \<open>item\<close> is 0 or less, as it is after
  \<^verbatim>\<open>add_item("banana", -2)\<close>, \<^verbatim>\<open>remove_item(item, 0)\<close> deletes the entry although nothing
  was to be removed.
\<close>

theorem remove_item_zero_deletes_nonpositive:
  assumes "map_of (stock_data w) item = Some current" and "current \<le> 0"
  shows
    "remove_item item (PInt 0) w =
       (Inr (), w\<lparr>stock_data := AList.delete item (stock_data w)\<rparr>) \<and>
     item \<notin> fst ` set (stock_data (snd (remove_item item (PInt 0) w))) \<and>
     fst (get_qty item (snd (remove_item item (PInt 0) w))) = Inl (KeyError item)"
  using remove_item_present [OF assms(1), of "PInt 0" 0] assms(2)
  by (simp add: get_qty_def dict_getitem_def delete_conv' delete_notin_dom)

theorem remove_item_zero_deletes_nonpositive_witness:
  "map_of (stock_data (call_effect (Add_item (PStr ''banana'') (PInt (- 2)) None t0)
                         (module_init Map.empty {}))) ''banana'' = Some (- 2) \<and>
   (- 2 :: int) \<le> 0 \<and>
   stock_data (run_calls [Add_item (PStr ''banana'') (PInt (- 2)) None t0,
                          Remove_item ''banana'' (PInt 0)]
                 (module_init Map.empty {})) = []"
proof -
  let ?w = "call_effect (Add_item (PStr ''banana'') (PInt (- 2)) None t0) (module_init Map.empty {})"
  have h: "map_of (stock_data ?w) ''banana'' = Some (- 2)"
    by (simp add: add_item_def module_init_def dict_setitem_def dict_get_or_def strip_def
          isspace_def)
  have s: "stock_data ?w = [(''banana'', - 2)]"
    by (simp add: add_item_def module_init_def dict_setitem_def dict_get_or_def strip_def
          isspace_def)
  show ?thesis
    using h remove_item_zero_deletes_nonpositive [OF h, THEN conjunct1] s
    by simp
qed

end
